theory Spec2Isabelle
  imports Main
begin

section \<open>Documents held by the hosted store\<close>

text \<open>
  The client keeps two collections in the hosted document store: the public item
  listings and the user profiles. Only the fields that the modelled handlers read or
  write are kept (an item's title, description, category, type, size, condition, tags and
  creation date, and a user's sign-up date, are carried along by the source but never
  inspected by it).

  \<open>item.pointsValue\<close> is written by the listing form as
  \<^verbatim>\<open>pointsValue ? parseInt(pointsValue, 10) : null\<close>, so it is \<open>null\<close>, \<open>NaN\<close> or an
  integer. A field that is missing from a document (\<open>undefined\<close>) is read like \<open>null\<close> by
  every use in the source (truthiness tests only), so \<open>PNull\<close> stands for both. In the
  same way a missing \<open>images\<close> field is read like the empty list. \<open>item.userId\<close> is
  \<open>None\<close> when the document has no such field.
\<close>

datatype pointsval = PNull | PNaN | PNum int

record item =
  userId :: "string option"
  pointsValue :: pointsval
  images :: "string list"
  status :: string

record user =
  email :: "string option"
  points :: int

record store =
  items :: "string \<rightharpoonup> item"
  users :: "string \<rightharpoonup> user"

text \<open>JavaScript truthiness of the values the handlers test.\<close>

definition truthy_string :: "string \<Rightarrow> bool" where
  "truthy_string s = (s \<noteq> [])"

fun truthy_pointsval :: "pointsval \<Rightarrow> bool" where
  "truthy_pointsval (PNum n) = (n \<noteq> 0)"
| "truthy_pointsval PNaN = False"
| "truthy_pointsval PNull = False"

text \<open>\<open>a < b\<close> for a number \<open>a\<close>: \<open>null\<close> converts to 0 and any comparison with \<open>NaN\<close> is false.\<close>

fun js_less :: "int \<Rightarrow> pointsval \<Rightarrow> bool" where
  "js_less a (PNum n) = (a < n)"
| "js_less a PNaN = False"
| "js_less a PNull = (a < 0)"

section \<open>What a handler shows\<close>

text \<open>
  The handlers report through \<open>showMessage(text, type)\<close>, \<open>onNavigate(page)\<close> and the two
  confirmation dialogs. Each message of the source is one constructor:

  \<^item> \<open>LogInToSwap\<close>: 'Please log in to request a swap.'
  \<^item> \<open>CannotSwapOwnItem\<close>: 'You cannot swap your own item.'
  \<^item> \<open>SwapRequestSent\<close>: 'Swap request sent successfully! The item owner will be notified.'
  \<^item> \<open>LogInToRedeem\<close>: 'Please log in to redeem points.'
  \<^item> \<open>CannotRedeemOwnItem\<close>: 'You cannot redeem points for your own item.'
  \<^item> \<open>NotForPointRedemption\<close>: 'This item is not available for point redemption.'
  \<^item> \<open>NotEnoughPoints\<close>: 'Not enough points to redeem this item.'
  \<^item> \<open>SuccessfullyRedeemed v\<close>: 'Successfully redeemed v points for this item!'
  \<^item> \<open>MaximumFiveImages\<close>: 'You can upload a maximum of 5 images.'
  \<^item> \<open>MustBeLoggedInToList\<close>: 'You must be logged in to list an item.'
  \<^item> \<open>ItemListed\<close>: 'Item listed successfully!'
  \<^item> \<open>ListingPermissionDenied\<close>: the 'Permission Denied: To list items, ...' text
  \<^item> \<open>FailedToListItem\<close>: 'Failed to list item: ...'
  \<^item> \<open>ListingModerated id approved\<close>: 'Listing id approved successfully!' or
    'Listing id rejected successfully!'
  \<^item> \<open>FailedToModerate\<close>: 'Failed to moderate listing: ...'
  \<^item> \<open>UserDeleted id\<close>: 'User id deleted successfully!'
  \<^item> \<open>FailedToDeleteUser\<close>: 'Failed to delete user: ...'
  \<^item> \<open>ItemNotFound\<close>: 'Item not found.'
\<close>

datatype message =
    LogInToSwap | CannotSwapOwnItem | SwapRequestSent
  | LogInToRedeem | CannotRedeemOwnItem | NotForPointRedemption | NotEnoughPoints
  | SuccessfullyRedeemed pointsval
  | MaximumFiveImages
  | MustBeLoggedInToList | ItemListed | ListingPermissionDenied | FailedToListItem
  | ListingModerated string bool | FailedToModerate
  | UserDeleted string | FailedToDeleteUser
  | ItemNotFound

datatype msg_type = Info | Error | Success

datatype effect =
    ShowMessage message msg_type
  | Navigate string
  | ShowConfirmSwap
  | ShowConfirmRedeem

fun is_success :: "effect \<Rightarrow> bool" where
  "is_success (ShowMessage m Success) = True"
| "is_success e = False"

fun is_failure :: "effect \<Rightarrow> bool" where
  "is_failure (ShowMessage m Success) = False"
| "is_failure (ShowMessage m t) = True"
| "is_failure e = False"

definition reports_success :: "effect list \<Rightarrow> bool" where
  "reports_success es = list_ex is_success es"

definition reports_failure :: "effect list \<Rightarrow> bool" where
  "reports_failure es = list_ex is_failure es"

section \<open>The listing form (AddItemPage)\<close>

subsection \<open>Images\<close>

text \<open>
  \<open>handleImageUpload\<close> receives the files of one selection; \<open>URL.createObjectURL\<close> is a
  parameter. \<open>handleRemoveImage\<close> keeps the entries whose index differs from the given one.
\<close>

definition handleImageUpload ::
  "('f \<Rightarrow> string) \<Rightarrow> 'f list \<Rightarrow> string list \<Rightarrow> effect list \<times> string list" where
  "handleImageUpload createObjectURL files imgs =
     (if length files + length imgs > 5
      then ([ShowMessage MaximumFiveImages Error], imgs)
      else ([], imgs @ map createObjectURL files))"

definition handleRemoveImage :: "nat \<Rightarrow> string list \<Rightarrow> string list" where
  "handleRemoveImage indexToRemove prevImages =
     map fst (filter (\<lambda>(img, index). index \<noteq> indexToRemove)
                (zip prevImages [0 ..< length prevImages]))"

datatype 'f image_event = Upload "'f list" | Remove nat

fun image_step :: "('f \<Rightarrow> string) \<Rightarrow> string list \<Rightarrow> 'f image_event \<Rightarrow> string list" where
  "image_step createObjectURL imgs (Upload files) =
     snd (handleImageUpload createObjectURL files imgs)"
| "image_step createObjectURL imgs (Remove i) = handleRemoveImage i imgs"

text \<open>The image list starts empty (\<open>useState([])\<close>) and changes only by these two handlers.\<close>

definition images_after :: "('f \<Rightarrow> string) \<Rightarrow> 'f image_event list \<Rightarrow> string list" where
  "images_after createObjectURL evs = foldl (image_step createObjectURL) [] evs"

subsection \<open>parseInt(text, 10)\<close>

text \<open>
  Leading white space is skipped, one sign is read, and the longest run of decimal digits
  is the value; no digit at that place gives \<open>NaN\<close>. Strings are byte strings here, so
  only the ASCII white space characters are skipped. The value is the exact integer: the
  source's number is a double, which is that integer up to \<open>2^53\<close> and a rounding of it
  beyond, so what is stated about the value read is stated up to \<open>2^53\<close>.
\<close>

definition is_space :: "char \<Rightarrow> bool" where
  "is_space c = ((of_char c :: nat) \<in> {9, 10, 11, 12, 13, 32})"

definition is_digit :: "char \<Rightarrow> bool" where
  "is_digit c = (48 \<le> (of_char c :: nat) \<and> (of_char c :: nat) \<le> 57)"

definition digits_value :: "string \<Rightarrow> nat" where
  "digits_value ds = foldl (\<lambda>acc c. acc * 10 + ((of_char c :: nat) - 48)) 0 ds"

definition parseInt10 :: "string \<Rightarrow> pointsval" where
  "parseInt10 s =
     (let t = dropWhile is_space s;
          neg = (t \<noteq> [] \<and> hd t = CHR ''-'');
          r = (if t \<noteq> [] \<and> (hd t = CHR ''-'' \<or> hd t = CHR ''+'') then tl t else t);
          ds = takeWhile is_digit r
      in if ds = [] then PNaN
         else PNum ((if neg then - 1 else 1) * int (digits_value ds)))"

subsection \<open>Submitting the form\<close>

text \<open>
  The form state read by \<open>handleSubmit\<close>. \<open>addDoc\<close> belongs to the hosted store: its
  outcome (the identifier it assigned, or the error it threw) is an input of the model.
\<close>

record add_item_form =
  form_pointsValue :: string
  form_images :: "string list"

datatype add_result = AddOk string | AddPermissionDenied | AddFailed

definition newItem :: "string \<Rightarrow> add_item_form \<Rightarrow> item" where
  "newItem currentUserId f =
     \<lparr> userId = Some currentUserId,
       pointsValue = (if truthy_string (form_pointsValue f)
                      then parseInt10 (form_pointsValue f) else PNull),
       images = form_images f,
       status = ''available'' \<rparr>"

definition handleSubmit ::
  "store \<Rightarrow> string option \<Rightarrow> add_item_form \<Rightarrow> add_result \<Rightarrow> effect list \<times> store" where
  "handleSubmit st currentUserId f res =
     (case currentUserId of
        None \<Rightarrow> ([ShowMessage MustBeLoggedInToList Error, Navigate ''auth''], st)
      | Some uid \<Rightarrow>
          if \<not> truthy_string uid
          then ([ShowMessage MustBeLoggedInToList Error, Navigate ''auth''], st)
          else (case res of
                  AddOk newId \<Rightarrow>
                    ([ShowMessage ItemListed Success, Navigate ''dashboard''],
                     st\<lparr>items := (items st)(newId \<mapsto> newItem uid f)\<rparr>)
                | AddPermissionDenied \<Rightarrow> ([ShowMessage ListingPermissionDenied Error], st)
                | AddFailed \<Rightarrow> ([ShowMessage FailedToListItem Error], st)))"

section \<open>The item page (ItemDetailPage)\<close>

text \<open>
  The page loads the listing once (\<open>fetchItemDetails\<close>) and its handlers work on that copy.
  A listing that does not exist gives the message 'Item not found.' and a redirect.
  The store's reads are taken to answer; a read that throws leaves everything as it is.
\<close>

definition fetchItemDetails :: "store \<Rightarrow> string \<Rightarrow> effect list \<times> item option" where
  "fetchItemDetails st itemId =
     (case items st itemId of
        Some d \<Rightarrow> ([], Some d)
      | None \<Rightarrow> ([ShowMessage ItemNotFound Error, Navigate ''browse''], None))"

subsection \<open>Swap requests\<close>

definition handleSwapRequest :: "string option \<Rightarrow> item \<Rightarrow> effect list" where
  "handleSwapRequest currentUserId it =
     (case currentUserId of
        None \<Rightarrow> [ShowMessage LogInToSwap Info, Navigate ''auth'']
      | Some uid \<Rightarrow>
          if \<not> truthy_string uid then [ShowMessage LogInToSwap Info, Navigate ''auth'']
          else if Some uid = userId it then [ShowMessage CannotSwapOwnItem Info]
          else [ShowConfirmSwap])"

text \<open>
  \<open>confirmSwap\<close> runs when the dialog is confirmed. Its body only shows the success
  message: nothing is written to the store, and the store has no collection of swap
  requests.
\<close>

definition confirmSwap :: "store \<Rightarrow> effect list \<times> store" where
  "confirmSwap st = ([ShowMessage SwapRequestSent Success], st)"

text \<open>A swap request carried through: the button, then the confirmed dialog.\<close>

definition requestSwap :: "store \<Rightarrow> string option \<Rightarrow> item \<Rightarrow> effect list \<times> store" where
  "requestSwap st currentUserId it =
     (if handleSwapRequest currentUserId it = [ShowConfirmSwap]
      then confirmSwap st
      else (handleSwapRequest currentUserId it, st))"

subsection \<open>Redemption\<close>

definition handleRedeemPoints :: "store \<Rightarrow> string option \<Rightarrow> item \<Rightarrow> effect list" where
  "handleRedeemPoints st currentUserId it =
     (case currentUserId of
        None \<Rightarrow> [ShowMessage LogInToRedeem Info, Navigate ''auth'']
      | Some uid \<Rightarrow>
          if \<not> truthy_string uid then [ShowMessage LogInToRedeem Info, Navigate ''auth'']
          else if Some uid = userId it then [ShowMessage CannotRedeemOwnItem Info]
          else if \<not> truthy_pointsval (pointsValue it)
            then [ShowMessage NotForPointRedemption Info]
          else (case users st uid of
                  None \<Rightarrow> [ShowMessage NotEnoughPoints Error]
                | Some u \<Rightarrow>
                    if js_less (points u) (pointsValue it)
                    then [ShowMessage NotEnoughPoints Error]
                    else [ShowConfirmRedeem]))"

text \<open>
  \<open>confirmRedeem\<close> runs when the dialog is confirmed. The two store updates (decrementing
  the points, setting the status to 'redeemed') are commented out in the source, so the
  body only shows the success message.
\<close>

definition confirmRedeem :: "store \<Rightarrow> item \<Rightarrow> effect list \<times> store" where
  "confirmRedeem st it = ([ShowMessage (SuccessfullyRedeemed (pointsValue it)) Success], st)"

text \<open>A redemption carried through: the button, then the confirmed dialog.\<close>

definition redeem :: "store \<Rightarrow> string option \<Rightarrow> item \<Rightarrow> effect list \<times> store" where
  "redeem st currentUserId it =
     (if handleRedeemPoints st currentUserId it = [ShowConfirmRedeem]
      then confirmRedeem st it
      else (handleRedeemPoints st currentUserId it, st))"

text \<open>
  \<open>redeem(listingId, redeemerId)\<close> and \<open>requestSwap(listingId, requesterId)\<close> from the
  store: the page loads the listing, then the flow above runs on it.
\<close>

definition redeem_listing :: "store \<Rightarrow> string option \<Rightarrow> string \<Rightarrow> effect list \<times> store" where
  "redeem_listing st currentUserId itemId =
     (case fetchItemDetails st itemId of
        (es, None) \<Rightarrow> (es, st)
      | (es, Some it) \<Rightarrow> redeem st currentUserId it)"

definition requestSwap_listing :: "store \<Rightarrow> string option \<Rightarrow> string \<Rightarrow> effect list \<times> store" where
  "requestSwap_listing st currentUserId itemId =
     (case fetchItemDetails st itemId of
        (es, None) \<Rightarrow> (es, st)
      | (es, Some it) \<Rightarrow> requestSwap st currentUserId it)"

text \<open>
  What the page renders: \<open>isOwner\<close> is \<open>currentUserId === item.userId\<close> (a signed-out
  visitor, \<open>null\<close>, is never equal to a missing owner field, \<open>undefined\<close>). The two buttons
  are rendered only for a visitor who is not the owner, on an available listing; the
  redeem button also needs a truthy \<open>pointsValue\<close>.
\<close>

definition isOwner :: "string option \<Rightarrow> item \<Rightarrow> bool" where
  "isOwner currentUserId it =
     (case currentUserId of None \<Rightarrow> False | Some uid \<Rightarrow> userId it = Some uid)"

definition swap_button_shown :: "string option \<Rightarrow> item \<Rightarrow> bool" where
  "swap_button_shown currentUserId it =
     (\<not> isOwner currentUserId it \<and> status it = ''available'')"

definition redeem_button_shown :: "string option \<Rightarrow> item \<Rightarrow> bool" where
  "redeem_button_shown currentUserId it =
     (swap_button_shown currentUserId it \<and> truthy_pointsval (pointsValue it))"

section \<open>The admin panel (AdminPanelPage)\<close>

text \<open>
  \<open>handleModerateListing\<close> writes \<open>{status: ...}\<close> with \<open>merge: true\<close>: an existing document
  keeps its other fields, a missing one is created with the status alone. Then the
  listings are read again. Whether the write and the read succeed is an input.
\<close>

definition moderated_status :: "string \<Rightarrow> string" where
  "moderated_status action = (if action = ''approve'' then ''available'' else ''rejected'')"

definition merge_status :: "item option \<Rightarrow> string \<Rightarrow> item" where
  "merge_status d s =
     (case d of
        Some it \<Rightarrow> it\<lparr>status := s\<rparr>
      | None \<Rightarrow> \<lparr> userId = None, pointsValue = PNull, images = [], status = s \<rparr>)"

definition handleModerateListing ::
  "store \<Rightarrow> string \<Rightarrow> string \<Rightarrow> bool \<Rightarrow> bool \<Rightarrow> effect list \<times> store" where
  "handleModerateListing st listingId action setDoc_ok getDocs_ok =
     (if \<not> setDoc_ok then ([ShowMessage FailedToModerate Error], st)
      else
        let st' = st\<lparr>items := (items st)(listingId \<mapsto>
                     merge_status (items st listingId) (moderated_status action))\<rparr>;
            shown = [ShowMessage (ListingModerated listingId (action = ''approve'')) Success]
        in if getDocs_ok then (shown, st')
           else (shown @ [ShowMessage FailedToModerate Error], st'))"

text \<open>The buttons of the listings tab.\<close>

definition approve_button_shown :: "item \<Rightarrow> bool" where
  "approve_button_shown it = (status it \<noteq> ''available'')"

definition reject_button_shown :: "item \<Rightarrow> bool" where
  "reject_button_shown it = (status it \<noteq> ''rejected'')"

definition handleDeleteUser :: "store \<Rightarrow> string \<Rightarrow> bool \<Rightarrow> effect list \<times> store" where
  "handleDeleteUser st userIdToDelete deleteDoc_ok =
     (if deleteDoc_ok
      then ([ShowMessage (UserDeleted userIdToDelete) Success],
            st\<lparr>users := (users st)(userIdToDelete := None)\<rparr>)
      else ([ShowMessage FailedToDeleteUser Error], st))"

section \<open>User profiles\<close>

text \<open>
  On sign-in the application makes sure the profile exists: a missing document is
  created with \<open>points: 0\<close>. The dashboard does the same with the e-mail address as the
  identity provider gives it. The write is not awaited; whether it lands is an input.
\<close>

definition ensureUserProfile :: "store \<Rightarrow> string \<Rightarrow> string option \<Rightarrow> bool \<Rightarrow> store" where
  "ensureUserProfile st uid user_email setDoc_ok =
     (case users st uid of
        Some u \<Rightarrow> st
      | None \<Rightarrow>
          if setDoc_ok
          then st\<lparr>users := (users st)(uid \<mapsto>
                 \<lparr> email = (case user_email of
                              None \<Rightarrow> Some ''anonymous@rewear.com''
                            | Some e \<Rightarrow> if truthy_string e then Some e
                                        else Some ''anonymous@rewear.com''),
                   points = 0 \<rparr>)\<rparr>
          else st)"

definition dashboardProfile :: "store \<Rightarrow> string \<Rightarrow> string option \<Rightarrow> bool \<Rightarrow> store" where
  "dashboardProfile st currentUserId user_email setDoc_ok =
     (case users st currentUserId of
        Some u \<Rightarrow> st
      | None \<Rightarrow>
          if setDoc_ok
          then st\<lparr>users := (users st)(currentUserId \<mapsto> \<lparr> email = user_email, points = 0 \<rparr>)\<rparr>
          else st)"

section \<open>Sequences of operations on the store\<close>

text \<open>
  Every place where the source writes to the store, or reports that it did, as one
  operation.
\<close>

datatype operation =
    AuthStateChanged string "string option" bool
  | DashboardProfile string "string option" bool
  | SubmitItem "string option" add_item_form add_result
  | RequestSwap "string option" string
  | Redeem "string option" string
  | Moderate string string bool bool
  | DeleteUser string bool

fun step :: "store \<Rightarrow> operation \<Rightarrow> store" where
  "step st (AuthStateChanged uid e ok) = ensureUserProfile st uid e ok"
| "step st (DashboardProfile uid e ok) = dashboardProfile st uid e ok"
| "step st (SubmitItem cu f res) = snd (handleSubmit st cu f res)"
| "step st (RequestSwap cu itemId) = snd (requestSwap_listing st cu itemId)"
| "step st (Redeem cu itemId) = snd (redeem_listing st cu itemId)"
| "step st (Moderate listingId action w r) = snd (handleModerateListing st listingId action w r)"
| "step st (DeleteUser uid ok) = snd (handleDeleteUser st uid ok)"

definition run :: "store \<Rightarrow> operation list \<Rightarrow> store" where
  "run st ops = foldl step st ops"

definition empty_store :: store where
  "empty_store = \<lparr> items = Map.empty, users = Map.empty \<rparr>"

section \<open>Reading the store\<close>

definition balance :: "store \<Rightarrow> string \<Rightarrow> int option" where
  "balance st uid = map_option points (users st uid)"

definition listing_status :: "store \<Rightarrow> string \<Rightarrow> string option" where
  "listing_status st itemId = map_option status (items st itemId)"

definition balances_nonneg :: "store \<Rightarrow> bool" where
  "balances_nonneg st = (\<forall>uid u. users st uid = Some u \<longrightarrow> 0 \<le> points u)"

section \<open>The state machine of the specification\<close>

text \<open>
  The edges of the listing state machine as the specification lists them (section 4.2),
  for comparison with what the handlers write: available to pending-swap, pending-swap to
  swapped, pending-swap to available, available to redeemed, available to rejected,
  rejected to available.
\<close>

definition spec_transition :: "string \<Rightarrow> string \<Rightarrow> bool" where
  "spec_transition s t =
     ((s, t) \<in> {(''available'', ''pending_swap''), (''pending_swap'', ''swapped''),
                (''pending_swap'', ''available''), (''available'', ''redeemed''),
                (''available'', ''rejected''), (''rejected'', ''available'')})"

section \<open>The listing and the accounts of the scenarios\<close>

text \<open>Listing L1 of user U1, available, worth 100 points, in a given status; and a store
  holding it together with one account.\<close>

definition listing_L1 :: "string \<Rightarrow> item" where
  "listing_L1 s =
     \<lparr> userId = Some ''U1'', pointsValue = PNum 100, images = [], status = s \<rparr>"

definition ledger :: "string \<Rightarrow> string \<Rightarrow> int \<Rightarrow> store" where
  "ledger s uid b =
     \<lparr> items = [''L1'' \<mapsto> listing_L1 s],
       users = [uid \<mapsto> \<lparr> email = None, points = b \<rparr>] \<rparr>"

section \<open>Facts shared by the properties\<close>

lemma redeem_snd: "snd (redeem st cu it) = st"
  by (simp add: redeem_def confirmRedeem_def)

lemma requestSwap_snd: "snd (requestSwap st cu it) = st"
  by (simp add: requestSwap_def confirmSwap_def)

lemma redeem_listing_snd: "snd (redeem_listing st cu itemId) = st"
  by (simp add: redeem_listing_def fetchItemDetails_def redeem_snd split: option.splits)

lemma requestSwap_listing_snd: "snd (requestSwap_listing st cu itemId) = st"
  by (simp add: requestSwap_listing_def fetchItemDetails_def requestSwap_snd
           split: option.splits)

lemma redeem_listing_found:
  "items st itemId = Some it \<Longrightarrow> redeem_listing st cu itemId = redeem st cu it"
  by (simp add: redeem_listing_def fetchItemDetails_def)

lemma requestSwap_listing_found:
  "items st itemId = Some it \<Longrightarrow> requestSwap_listing st cu itemId = requestSwap st cu it"
  by (simp add: requestSwap_listing_def fetchItemDetails_def)

lemma length_handleRemoveImage: "length (handleRemoveImage i imgs) \<le> length imgs"
proof -
  have "length (handleRemoveImage i imgs) \<le> length (zip imgs [0 ..< length imgs])"
    unfolding handleRemoveImage_def by (simp only: length_map length_filter_le)
  then show ?thesis by simp
qed

lemma length_handleImageUpload:
  "length imgs \<le> 5 \<Longrightarrow> length (snd (handleImageUpload c files imgs)) \<le> 5"
  by (simp add: handleImageUpload_def)

lemma length_image_step: "length imgs \<le> 5 \<Longrightarrow> length (image_step c imgs ev) \<le> 5"
proof (cases ev)
  case (Upload files)
  assume "length imgs \<le> 5"
  then show ?thesis using Upload by (simp add: length_handleImageUpload)
next
  case (Remove i)
  assume "length imgs \<le> 5"
  then show ?thesis
    using Remove length_handleRemoveImage [of i imgs] by simp
qed

lemma length_foldl_image_step:
  "length imgs \<le> 5 \<Longrightarrow> length (foldl (image_step c) imgs evs) \<le> 5"
  by (induction evs arbitrary: imgs) (simp_all add: length_image_step)

section \<open>Creating a listing\<close>

text \<open>
  C8. Every listing is created with status 'available': whenever \<open>handleSubmit\<close> reports
  success, the store accepted the document, and the document now stored under the
  identifier it assigned has the status 'available'.
\<close>

theorem handleSubmit_status_available:
  assumes "reports_success (fst (handleSubmit st cu f res))"
  shows "\<exists>newId d. res = AddOk newId
           \<and> items (snd (handleSubmit st cu f res)) newId = Some d
           \<and> status d = ''available''"
  using assms
  by (auto simp: handleSubmit_def reports_success_def newItem_def
           split: option.splits if_splits add_result.splits)

theorem handleSubmit_status_available_witness:
  "reports_success (fst (handleSubmit empty_store (Some ''U1'')
       \<lparr>form_pointsValue = ''100'', form_images = []\<rparr> (AddOk ''L1'')))
   \<and> (\<exists>newId d. AddOk ''L1'' = AddOk newId
         \<and> items (snd (handleSubmit empty_store (Some ''U1'')
              \<lparr>form_pointsValue = ''100'', form_images = []\<rparr> (AddOk ''L1''))) newId = Some d
         \<and> status d = ''available'')"
proof -
  have ok: "reports_success (fst (handleSubmit empty_store (Some ''U1'')
       \<lparr>form_pointsValue = ''100'', form_images = []\<rparr> (AddOk ''L1'')))"
    by (simp add: handleSubmit_def reports_success_def truthy_string_def)
  from handleSubmit_status_available [OF ok] ok show ?thesis by blast
qed

text \<open>
  C10. The image list of the listing form never holds more than 5 entries: it starts
  empty, a selection that would bring the count above 5 is refused as a whole (the list
  is returned as it was, with the error message), removing an image never lengthens the
  list, and so a listing created from the form carries at most 5 images.
\<close>

theorem images_at_most_five:
  "length (images_after c evs) \<le> 5
   \<and> (length files + length imgs > 5 \<longrightarrow>
        handleImageUpload c files imgs = ([ShowMessage MaximumFiveImages Error], imgs))
   \<and> length (handleRemoveImage i imgs) \<le> length imgs
   \<and> (\<forall>d. items (snd (handleSubmit st (Some uid)
               \<lparr>form_pointsValue = pv, form_images = images_after c evs\<rparr> (AddOk newId))) newId
             = Some d \<and> truthy_string uid
          \<longrightarrow> length (images d) \<le> 5)"
proof -
  have inv: "length (images_after c evs) \<le> 5"
    unfolding images_after_def by (rule length_foldl_image_step) simp
  have refuse: "length files + length imgs > 5 \<longrightarrow>
      handleImageUpload c files imgs = ([ShowMessage MaximumFiveImages Error], imgs)"
    by (simp add: handleImageUpload_def)
  have created: "\<forall>d. items (snd (handleSubmit st (Some uid)
               \<lparr>form_pointsValue = pv, form_images = images_after c evs\<rparr> (AddOk newId))) newId
             = Some d \<and> truthy_string uid
          \<longrightarrow> length (images d) \<le> 5"
    using inv by (auto simp: handleSubmit_def newItem_def)
  from inv refuse length_handleRemoveImage [of i imgs] created show ?thesis by blast
qed

theorem images_at_most_five_witness:
  "length (images_after id [Upload [''a'', ''b'', ''c''], Upload [''d'', ''e'', ''f''], Remove 0,
                            Upload [''x'', ''y'', ''z'']]) \<le> 5
   \<and> length [''d'', ''e'', ''f''] + length [''a'', ''b'', ''c''] > 5
   \<and> handleImageUpload id [''d'', ''e'', ''f''] [''a'', ''b'', ''c'']
       = ([ShowMessage MaximumFiveImages Error], [''a'', ''b'', ''c''])
   \<and> truthy_string ''U1''
   \<and> (\<exists>d. items (snd (handleSubmit empty_store (Some ''U1'')
               \<lparr>form_pointsValue = '''',
                form_images = images_after id [Upload [''a'', ''b'', ''c''],
                    Upload [''d'', ''e'', ''f''], Remove 0, Upload [''x'', ''y'', ''z'']]\<rparr>
               (AddOk ''L1''))) ''L1'' = Some d
          \<and> length (images d) \<le> 5)"
proof -
  let ?evs = "[Upload [''a'', ''b'', ''c''], Upload [''d'', ''e'', ''f''], Remove 0,
               Upload [''x'', ''y'', ''z'']]"
  have t: "truthy_string ''U1''" by (simp add: truthy_string_def)
  have big: "length [''d'', ''e'', ''f''] + length [''a'', ''b'', ''c''] > 5" by simp
  have stored: "\<exists>d. items (snd (handleSubmit empty_store (Some ''U1'')
               \<lparr>form_pointsValue = '''', form_images = images_after id ?evs\<rparr>
               (AddOk ''L1''))) ''L1'' = Some d"
    by (simp add: handleSubmit_def t)
  from images_at_most_five [of id ?evs "[''d'', ''e'', ''f'']" "[''a'', ''b'', ''c'']" 0
         empty_store "''U1''" "''''" "''L1''"] t big stored
  show ?thesis by blast
qed

lemma ledger_items: "items (ledger s uid b) ''L1'' = Some (listing_L1 s)"
  by (simp add: ledger_def)

lemma redeem_success_iff:
  "reports_success (fst (redeem st cu it)) \<longleftrightarrow>
     (\<exists>uid u. cu = Some uid \<and> truthy_string uid \<and> userId it \<noteq> Some uid
        \<and> truthy_pointsval (pointsValue it) \<and> users st uid = Some u
        \<and> \<not> js_less (points u) (pointsValue it))"
  by (auto simp: redeem_def confirmRedeem_def handleRedeemPoints_def reports_success_def
           split: option.splits)

lemma scenario_B:
  "redeem_listing (ledger ''available'' ''U2'' 150) (Some ''U2'') ''L1''
     = ([ShowMessage (SuccessfullyRedeemed (PNum 100)) Success], ledger ''available'' ''U2'' 150)"
  by (simp add: redeem_listing_def fetchItemDetails_def redeem_def handleRedeemPoints_def
        confirmRedeem_def ledger_def listing_L1_def truthy_string_def)

lemma handleRedeemPoints_ignores_status:
  "handleRedeemPoints st cu (it\<lparr>status := s\<rparr>) = handleRedeemPoints st cu it"
  by (simp add: handleRedeemPoints_def split: option.splits)

lemma redeem_ignores_status: "redeem st cu (it\<lparr>status := s\<rparr>) = redeem st cu it"
  by (simp add: redeem_def handleRedeemPoints_ignores_status confirmRedeem_def)

section \<open>Redemption\<close>

text \<open>
  The specification's error names correspond to the messages of \<open>handleRedeemPoints\<close>:
  OwnerCannotRedeemOwnListing is \<open>CannotRedeemOwnItem\<close>, ListingNotRedeemable is
  \<open>NotForPointRedemption\<close>, InsufficientFunds is \<open>NotEnoughPoints\<close>, ListingNotFound is
  \<open>ItemNotFound\<close>; success is \<open>SuccessfullyRedeemed\<close>.
\<close>

text \<open>
  C1, as stated, fails. In scenario B (listing L1 of U1, available, worth 100 points; U2
  holds 150 points) the redemption reports success, yet U2 still holds 150 points, not 50,
  and L1 is still 'available', not 'redeemed'.
\<close>

theorem redeem_applies_nothing_counterexample:
  "reports_success (fst (redeem_listing (ledger ''available'' ''U2'' 150) (Some ''U2'') ''L1''))
   \<and> balance (snd (redeem_listing (ledger ''available'' ''U2'' 150) (Some ''U2'') ''L1'')) ''U2''
       = Some 150
   \<and> listing_status (snd (redeem_listing (ledger ''available'' ''U2'' 150) (Some ''U2'') ''L1''))
       ''L1'' = Some ''available''"
  unfolding scenario_B
  by (simp add: reports_success_def balance_def listing_status_def ledger_def listing_L1_def)

text \<open>
  C1, amended. Every redemption attempt, whether it reports success or an error, leaves
  the store as it was: no balance and no listing status changes. Success is reported
  exactly when the listing exists, the redeemer is signed in and is not the owner, the
  listing's \<open>pointsValue\<close> is a non-zero number, and the redeemer's profile exists with a
  balance that is not below it.
\<close>

theorem redeem_changes_nothing:
  "snd (redeem_listing st cu itemId) = st
   \<and> balance (snd (redeem_listing st cu itemId)) uid = balance st uid
   \<and> listing_status (snd (redeem_listing st cu itemId)) itemId = listing_status st itemId
   \<and> (reports_success (fst (redeem_listing st cu itemId)) \<longleftrightarrow>
        (\<exists>it r u. items st itemId = Some it \<and> cu = Some r \<and> truthy_string r
           \<and> userId it \<noteq> Some r \<and> truthy_pointsval (pointsValue it)
           \<and> users st r = Some u \<and> \<not> js_less (points u) (pointsValue it)))"
proof -
  have "reports_success (fst (redeem_listing st cu itemId)) \<longleftrightarrow>
        (\<exists>it r u. items st itemId = Some it \<and> cu = Some r \<and> truthy_string r
           \<and> userId it \<noteq> Some r \<and> truthy_pointsval (pointsValue it)
           \<and> users st r = Some u \<and> \<not> js_less (points u) (pointsValue it))"
  proof (cases "items st itemId")
    case None
    then show ?thesis
      by (simp add: redeem_listing_def fetchItemDetails_def reports_success_def)
  next
    case (Some it)
    then show ?thesis
      by (simp add: redeem_listing_found redeem_success_iff)
  qed
  then show ?thesis by (simp add: redeem_listing_snd)
qed

theorem redeem_changes_nothing_witness:
  "reports_success (fst (redeem_listing (ledger ''available'' ''U2'' 150) (Some ''U2'') ''L1''))
   \<and> snd (redeem_listing (ledger ''available'' ''U2'' 150) (Some ''U2'') ''L1'')
       = ledger ''available'' ''U2'' 150
   \<and> balance (snd (redeem_listing (ledger ''available'' ''U2'' 150) (Some ''U2'') ''L1'')) ''U2''
       = Some 150"
proof -
  have b: "balance (ledger ''available'' ''U2'' 150) ''U2'' = Some 150"
    by (simp add: balance_def ledger_def)
  have s: "reports_success
      (fst (redeem_listing (ledger ''available'' ''U2'' 150) (Some ''U2'') ''L1''))"
    by (simp add: scenario_B reports_success_def)
  from redeem_changes_nothing
         [of "ledger ''available'' ''U2'' 150" "Some ''U2''" "''L1''" "''U2''"] b s
  show ?thesis by simp
qed

text \<open>
  C3. When the signed-in user is the owner of the listing, the redemption answers with
  the message 'You cannot redeem points for your own item.' and the store, hence the
  listing's status and every balance, is as before.
\<close>

theorem owner_cannot_redeem:
  assumes "items st itemId = Some it" and "userId it = Some uid" and "truthy_string uid"
  shows "redeem_listing st (Some uid) itemId = ([ShowMessage CannotRedeemOwnItem Info], st)"
  using assms
  by (simp add: redeem_listing_found redeem_def handleRedeemPoints_def)

theorem owner_cannot_redeem_witness:
  "items (ledger ''available'' ''U1'' 150) ''L1'' = Some (listing_L1 ''available'')
   \<and> userId (listing_L1 ''available'') = Some ''U1'' \<and> truthy_string ''U1''
   \<and> redeem_listing (ledger ''available'' ''U1'' 150) (Some ''U1'') ''L1''
       = ([ShowMessage CannotRedeemOwnItem Info], ledger ''available'' ''U1'' 150)"
proof -
  have a: "items (ledger ''available'' ''U1'' 150) ''L1'' = Some (listing_L1 ''available'')"
    by (rule ledger_items)
  have b: "userId (listing_L1 ''available'') = Some ''U1''" by (simp add: listing_L1_def)
  have c: "truthy_string ''U1''" by (simp add: truthy_string_def)
  from owner_cannot_redeem [OF a b c] a b c show ?thesis by simp
qed

text \<open>
  C4, as stated, fails for a redeemer who is the owner: U1 owns L1 (worth 100 points) and
  holds 50 points, and the answer is the owner message, not 'Not enough points'. The
  owner check comes before the balance check.
\<close>

theorem insufficient_owner_counterexample:
  "balance (ledger ''available'' ''U1'' 50) ''U1'' = Some 50
   \<and> pointsValue (listing_L1 ''available'') = PNum 100
   \<and> redeem_listing (ledger ''available'' ''U1'' 50) (Some ''U1'') ''L1''
       = ([ShowMessage CannotRedeemOwnItem Info], ledger ''available'' ''U1'' 50)
   \<and> ShowMessage CannotRedeemOwnItem Info \<noteq> ShowMessage NotEnoughPoints Error"
  by (simp add: redeem_listing_def fetchItemDetails_def redeem_def handleRedeemPoints_def
        balance_def ledger_def listing_L1_def truthy_string_def)

text \<open>
  C4, amended. For every listing whose \<open>pointsValue\<close> is a non-zero number and every
  signed-in redeemer other than the owner whose balance is strictly below it (or who has
  no profile yet), the redemption answers 'Not enough points to redeem this item.' and
  the store is as before.
\<close>

theorem insufficient_funds:
  assumes "items st itemId = Some it" and "truthy_string uid" and "userId it \<noteq> Some uid"
    and "pointsValue it = PNum n" and "n \<noteq> 0"
    and "balance st uid = None \<or> (\<exists>b. balance st uid = Some b \<and> b < n)"
  shows "redeem_listing st (Some uid) itemId = ([ShowMessage NotEnoughPoints Error], st)"
  using assms
  by (auto simp: redeem_listing_found redeem_def handleRedeemPoints_def balance_def
           split: option.splits)

theorem insufficient_funds_witness:
  "items (ledger ''available'' ''U3'' 50) ''L1'' = Some (listing_L1 ''available'')
   \<and> truthy_string ''U3'' \<and> userId (listing_L1 ''available'') \<noteq> Some ''U3''
   \<and> pointsValue (listing_L1 ''available'') = PNum 100 \<and> (100::int) \<noteq> 0
   \<and> balance (ledger ''available'' ''U3'' 50) ''U3'' = Some 50 \<and> (50::int) < 100
   \<and> redeem_listing (ledger ''available'' ''U3'' 50) (Some ''U3'') ''L1''
       = ([ShowMessage NotEnoughPoints Error], ledger ''available'' ''U3'' 50)"
proof -
  have a: "items (ledger ''available'' ''U3'' 50) ''L1'' = Some (listing_L1 ''available'')"
    by (rule ledger_items)
  have b: "truthy_string ''U3''" by (simp add: truthy_string_def)
  have c: "userId (listing_L1 ''available'') \<noteq> Some ''U3''" by (simp add: listing_L1_def)
  have d: "pointsValue (listing_L1 ''available'') = PNum 100" by (simp add: listing_L1_def)
  have e: "(100::int) \<noteq> 0" by simp
  have f: "balance (ledger ''available'' ''U3'' 50) ''U3'' = Some 50"
    by (simp add: balance_def ledger_def)
  have g: "balance (ledger ''available'' ''U3'' 50) ''U3'' = None
     \<or> (\<exists>b. balance (ledger ''available'' ''U3'' 50) ''U3'' = Some b \<and> b < 100)"
    using f by simp
  from insufficient_funds [OF a b c d e g] a b c d f show ?thesis by simp
qed

text \<open>
  C7, as stated, fails. In scenario B two redemptions in a row both report success; the
  second reports no error at all.
\<close>

theorem redeem_twice_counterexample:
  "reports_success (fst (redeem_listing (ledger ''available'' ''U2'' 150) (Some ''U2'') ''L1''))
   \<and> reports_success (fst (redeem_listing
        (snd (redeem_listing (ledger ''available'' ''U2'' 150) (Some ''U2'') ''L1''))
        (Some ''U2'') ''L1''))
   \<and> \<not> reports_failure (fst (redeem_listing
        (snd (redeem_listing (ledger ''available'' ''U2'' 150) (Some ''U2'') ''L1''))
        (Some ''U2'') ''L1''))"
  by (simp add: scenario_B reports_success_def reports_failure_def)

text \<open>
  C7, amended. Calling redeem twice in immediate succession on the same listing gives
  the same answer both times (two successes when the first succeeds), and the redeemer
  is debited neither twice nor once: every balance is as before. The answer does not
  depend on the listing's status, which \<open>handleRedeemPoints\<close> never reads.
\<close>

theorem redeem_twice_same:
  "redeem_listing (snd (redeem_listing st cu itemId)) cu itemId = redeem_listing st cu itemId
   \<and> balance (snd (redeem_listing (snd (redeem_listing st cu itemId)) cu itemId)) uid
       = balance st uid
   \<and> redeem st cu (it\<lparr>status := s\<rparr>) = redeem st cu it"
  by (simp add: redeem_listing_snd redeem_ignores_status)

section \<open>Points accounts\<close>

lemma step_users:
  "users (step st op) uid = Some u' \<Longrightarrow>
     users st uid = Some u' \<or> (users st uid = None \<and> points u' = 0)"
proof (cases op)
  case (AuthStateChanged a e ok)
  assume "users (step st op) uid = Some u'"
  with AuthStateChanged show ?thesis
    by (auto simp: ensureUserProfile_def split: option.splits if_splits)
next
  case (DashboardProfile a e ok)
  assume "users (step st op) uid = Some u'"
  with DashboardProfile show ?thesis
    by (auto simp: dashboardProfile_def split: option.splits if_splits)
next
  case (SubmitItem cu f res)
  assume "users (step st op) uid = Some u'"
  with SubmitItem show ?thesis
    by (auto simp: handleSubmit_def split: option.splits if_splits add_result.splits)
next
  case (RequestSwap cu itemId)
  assume "users (step st op) uid = Some u'"
  with RequestSwap show ?thesis by (simp add: requestSwap_listing_snd)
next
  case (Redeem cu itemId)
  assume "users (step st op) uid = Some u'"
  with Redeem show ?thesis by (simp add: redeem_listing_snd)
next
  case (Moderate listingId action w r)
  assume "users (step st op) uid = Some u'"
  with Moderate show ?thesis
    by (auto simp: handleModerateListing_def Let_def split: if_splits)
next
  case (DeleteUser a ok)
  assume "users (step st op) uid = Some u'"
  with DeleteUser show ?thesis
    by (auto simp: handleDeleteUser_def split: if_splits)
qed

lemma step_balances_nonneg: "balances_nonneg st \<Longrightarrow> balances_nonneg (step st op)"
  unfolding balances_nonneg_def using step_users by fastforce

lemma foldl_step_balances_nonneg:
  "balances_nonneg st \<Longrightarrow> balances_nonneg (foldl step st ops)"
  by (induction ops arbitrary: st) (simp_all add: step_balances_nonneg)

lemma empty_store_nonneg: "balances_nonneg empty_store"
  by (simp add: balances_nonneg_def empty_store_def)

lemma redeem_success_balance:
  assumes "reports_success (fst (redeem_listing st (Some uid) itemId))"
  shows "\<exists>b it n. balance st uid = Some b \<and> items st itemId = Some it
           \<and> pointsValue it = PNum n \<and> n \<le> b"
proof (cases "items st itemId")
  case None
  with assms show ?thesis
    by (simp add: redeem_listing_def fetchItemDetails_def reports_success_def)
next
  case (Some it)
  with assms have s: "reports_success (fst (redeem st (Some uid) it))"
    by (simp add: redeem_listing_found)
  show ?thesis
  proof (cases "pointsValue it")
    case (PNum n)
    with s Some show ?thesis
      by (auto simp: redeem_def handleRedeemPoints_def confirmRedeem_def reports_success_def
            balance_def split: option.splits if_splits)
  next
    case PNull
    with s show ?thesis
      by (auto simp: redeem_def handleRedeemPoints_def reports_success_def
            split: option.splits if_splits)
  next
    case PNaN
    with s show ?thesis
      by (auto simp: redeem_def handleRedeemPoints_def reports_success_def
            split: option.splits if_splits)
  qed
qed

text \<open>
  C2. No sequence of operations makes a balance negative: if every balance of the store
  is non-negative it stays so after any sequence, and in particular after any sequence
  starting from the empty store. Profiles are created with 0 points; an operation leaves
  an account's balance as it was (or creates the account with 0, or deletes it), so no
  debit is applied at all; and a redemption reports success only when the balance is at
  least the listing's \<open>pointsValue\<close>.
\<close>

theorem balance_never_negative:
  "(balances_nonneg st \<longrightarrow> balances_nonneg (run st ops))
   \<and> balances_nonneg (run empty_store ops)
   \<and> (users st uid = None \<longrightarrow>
        balance (ensureUserProfile st uid e True) uid = Some 0
        \<and> balance (dashboardProfile st uid e True) uid = Some 0)
   \<and> (users (step st op) v = Some u' \<longrightarrow>
        users st v = Some u' \<or> (users st v = None \<and> points u' = 0))
   \<and> (reports_success (fst (redeem_listing st (Some r) itemId)) \<longrightarrow>
        (\<exists>b it n. balance st r = Some b \<and> items st itemId = Some it
           \<and> pointsValue it = PNum n \<and> n \<le> b))"
proof -
  have a: "balances_nonneg st \<longrightarrow> balances_nonneg (run st ops)"
    by (simp add: run_def foldl_step_balances_nonneg)
  have b: "balances_nonneg (run empty_store ops)"
    by (simp add: run_def foldl_step_balances_nonneg empty_store_nonneg)
  have c: "users st uid = None \<longrightarrow>
        balance (ensureUserProfile st uid e True) uid = Some 0
        \<and> balance (dashboardProfile st uid e True) uid = Some 0"
    by (simp add: ensureUserProfile_def dashboardProfile_def balance_def)
  from a b c step_users [of st op v u'] redeem_success_balance [of st r itemId]
  show ?thesis by blast
qed

theorem balance_never_negative_witness:
  "balances_nonneg (ledger ''available'' ''U2'' 150)
   \<and> balances_nonneg (run (ledger ''available'' ''U2'' 150)
        [AuthStateChanged ''U3'' None True, Redeem (Some ''U2'') ''L1'',
         Redeem (Some ''U3'') ''L1'', DeleteUser ''U2'' True])
   \<and> users (ledger ''available'' ''U2'' 150) ''U3'' = None
   \<and> balance (ensureUserProfile (ledger ''available'' ''U2'' 150) ''U3'' None True) ''U3'' = Some 0
   \<and> users (step (ledger ''available'' ''U2'' 150) (DeleteUser ''U3'' True)) ''U2''
       = Some \<lparr>email = None, points = 150\<rparr>
   \<and> users (ledger ''available'' ''U2'' 150) ''U2'' = Some \<lparr>email = None, points = 150\<rparr>
   \<and> reports_success (fst (redeem_listing (ledger ''available'' ''U2'' 150) (Some ''U2'') ''L1''))
   \<and> (\<exists>b it n. balance (ledger ''available'' ''U2'' 150) ''U2'' = Some b
        \<and> items (ledger ''available'' ''U2'' 150) ''L1'' = Some it
        \<and> pointsValue it = PNum n \<and> n \<le> b)"
proof -
  have a: "balances_nonneg (ledger ''available'' ''U2'' 150)"
    by (simp add: balances_nonneg_def ledger_def)
  have b: "users (ledger ''available'' ''U2'' 150) ''U3'' = None"
    by (simp add: ledger_def)
  have c: "users (step (ledger ''available'' ''U2'' 150) (DeleteUser ''U3'' True)) ''U2''
       = Some \<lparr>email = None, points = 150\<rparr>"
    by (simp add: handleDeleteUser_def ledger_def)
  have d: "users (ledger ''available'' ''U2'' 150) ''U2'' = Some \<lparr>email = None, points = 150\<rparr>"
    by (simp add: ledger_def)
  have s: "reports_success (fst (redeem_listing (ledger ''available'' ''U2'' 150) (Some ''U2'') ''L1''))"
    by (simp add: scenario_B reports_success_def)
  from balance_never_negative [where st = "ledger ''available'' ''U2'' 150"
        and ops = "[AuthStateChanged ''U3'' None True, Redeem (Some ''U2'') ''L1'',
          Redeem (Some ''U3'') ''L1'', DeleteUser ''U2'' True]" and uid = "''U3''" and e = None
        and op = "DeleteUser ''U3'' True" and v = "''U2''"
        and u' = "\<lparr>email = None, points = 150\<rparr>" and r = "''U2''" and itemId = "''L1''"]
       a b c d s
  show ?thesis by blast
qed

section \<open>The points value of a listing\<close>

lemma hd_dropWhile_in: "dropWhile P s \<noteq> [] \<Longrightarrow> hd (dropWhile P s) \<in> set s"
  by (metis hd_in_set set_dropWhileD)

lemma parseInt10_nonneg:
  assumes "CHR ''-'' \<notin> set s" and "parseInt10 s = PNum n"
  shows "0 \<le> n"
proof -
  have "\<not> (dropWhile is_space s \<noteq> [] \<and> hd (dropWhile is_space s) = CHR ''-'')"
  proof
    assume h: "dropWhile is_space s \<noteq> [] \<and> hd (dropWhile is_space s) = CHR ''-''"
    then have ne: "dropWhile is_space s \<noteq> []" and m: "hd (dropWhile is_space s) = CHR ''-''"
      by blast+
    from hd_dropWhile_in [OF ne] have "hd (dropWhile is_space s) \<in> set s" .
    with m assms(1) show False by metis
  qed
  with assms(2) show ?thesis
    by (auto simp: parseInt10_def Let_def split: if_splits)
qed

lemma parseInt10_not_null: "parseInt10 s \<noteq> PNull"
  by (simp add: parseInt10_def Let_def)

lemma digit_not_space: "is_digit c \<Longrightarrow> \<not> is_space c"
  by (auto simp: is_digit_def is_space_def)

lemma sign_chars:
  "\<not> is_space CHR ''-''" "\<not> is_space CHR ''+''" "\<not> is_digit CHR ''-''" "\<not> is_digit CHR ''+''"
  by (simp_all add: is_space_def is_digit_def)

lemma takeWhile_digits:
  assumes "\<forall>c\<in>set ds. is_digit c" and "rest = [] \<or> \<not> is_digit (hd rest)"
  shows "takeWhile is_digit (ds @ rest) = ds"
proof -
  have "takeWhile is_digit rest = []"
    using assms(2) by (cases rest) auto
  with assms(1) show ?thesis by simp
qed

lemma dropWhile_spaces:
  assumes "\<forall>c\<in>set ws. is_space c" and "\<not> is_space x"
  shows "dropWhile is_space (ws @ x # xs) = x # xs"
  using assms by simp

lemma parseInt10_unsigned:
  assumes ws: "\<forall>c\<in>set ws. is_space c" and ne: "ds \<noteq> []"
    and ds: "\<forall>c\<in>set ds. is_digit c" and rest: "rest = [] \<or> \<not> is_digit (hd rest)"
  shows "parseInt10 (ws @ ds @ rest) = PNum (int (digits_value ds))"
proof -
  from ne obtain d ds' where d: "ds = d # ds'" by (cases ds) auto
  with ds have dd: "is_digit d" by simp
  then have ns: "\<not> is_space d" by (rule digit_not_space)
  have dw: "dropWhile is_space (ws @ ds @ rest) = ds @ rest"
    using dropWhile_spaces [OF ws ns, of "ds' @ rest"] d by simp
  have hd: "hd (ds @ rest) = d" using d by simp
  have nsign: "d \<noteq> CHR ''-''" "d \<noteq> CHR ''+''" using dd sign_chars by auto
  show ?thesis
    using ne nsign takeWhile_digits [OF ds rest]
    by (simp add: parseInt10_def Let_def dw hd)
qed

lemma parseInt10_signed:
  assumes ws: "\<forall>c\<in>set ws. is_space c" and sg: "sg = CHR ''-'' \<or> sg = CHR ''+''"
    and ne: "ds \<noteq> []"
    and ds: "\<forall>c\<in>set ds. is_digit c" and rest: "rest = [] \<or> \<not> is_digit (hd rest)"
  shows "parseInt10 (ws @ sg # ds @ rest)
           = PNum ((if sg = CHR ''-'' then - 1 else 1) * int (digits_value ds))"
proof -
  from sg have ns: "\<not> is_space sg" using sign_chars by auto
  have dw: "dropWhile is_space (ws @ sg # ds @ rest) = sg # ds @ rest"
    by (rule dropWhile_spaces [OF ws ns])
  show ?thesis
    using ne sg takeWhile_digits [OF ds rest]
    by (auto simp: parseInt10_def Let_def dw)
qed

lemma parseInt10_numeral:
  assumes "\<forall>c\<in>set ws. is_space c" and "sign = [] \<or> sign = ''+'' \<or> sign = ''-''"
    and "ds \<noteq> []" and "\<forall>c\<in>set ds. is_digit c" and "rest = [] \<or> \<not> is_digit (hd rest)"
  shows "parseInt10 (ws @ sign @ ds @ rest)
           = PNum ((if sign = ''-'' then - 1 else 1) * int (digits_value ds))"
proof -
  consider "sign = []" | "sign = ''+''" | "sign = ''-''" using assms(2) by blast
  then show ?thesis
  proof cases
    case 1
    then show ?thesis
      using parseInt10_unsigned [OF assms(1) assms(3) assms(4) assms(5)] by simp
  next
    case 2
    then show ?thesis
      using parseInt10_signed [OF assms(1) _ assms(3) assms(4) assms(5), of "CHR ''+''"]
      by simp
  next
    case 3
    then show ?thesis
      using parseInt10_signed [OF assms(1) _ assms(3) assms(4) assms(5), of "CHR ''-''"]
      by simp
  qed
qed

text \<open>
  C9, as stated, fails: the form accepts a negative number. Submitting the text \<open>-5\<close> in
  the points field stores a listing whose \<open>pointsValue\<close> is \<open>-5\<close>.
\<close>

theorem negative_pointsValue_counterexample:
  "map_option pointsValue
     (items (snd (handleSubmit empty_store (Some ''U1'')
        \<lparr>form_pointsValue = ''-5'', form_images = []\<rparr> (AddOk ''L1''))) ''L1'')
   = Some (PNum (- 5))"
  by (simp add: handleSubmit_def newItem_def truthy_string_def parseInt10_def is_space_def
        is_digit_def digits_value_def)

text \<open>
  C9, amended. The \<open>pointsValue\<close> of a created listing is absent exactly when the points
  field was left empty. When the field's text is optional white space, an optional sign
  and then at least one decimal digit, of value at most \<open>2^53\<close> (whatever follows the
  digits is ignored), \<open>pointsValue\<close> is the integer those digits denote, negated under a
  minus sign: a non-negative integer unless a minus sign was entered, and a negative
  entry is stored as it is. Whenever the text has no minus sign and a number was stored,
  the number is non-negative. A listing whose \<open>pointsValue\<close> is absent cannot be redeemed
  with points: no redemption of it reports success or changes the store, and a signed-in
  user other than the owner is told 'This item is not available for point redemption.'
\<close>

theorem pointsValue_absent_or_integer:
  "(pointsValue (newItem uid f) = PNull \<longleftrightarrow> form_pointsValue f = [])
   \<and> ((\<forall>c\<in>set ws. is_space c) \<and> (sign = [] \<or> sign = ''+'' \<or> sign = ''-'')
        \<and> ds \<noteq> [] \<and> (\<forall>c\<in>set ds. is_digit c) \<and> (rest = [] \<or> \<not> is_digit (hd rest))
        \<and> digits_value ds \<le> 2 ^ 53
       \<longrightarrow> pointsValue (newItem uid (f\<lparr>form_pointsValue := ws @ sign @ ds @ rest\<rparr>))
             = PNum ((if sign = ''-'' then - 1 else 1) * int (digits_value ds))
           \<and> (sign \<noteq> ''-'' \<longrightarrow>
                 0 \<le> (if sign = ''-'' then - 1 else 1) * int (digits_value ds)))
   \<and> (CHR ''-'' \<notin> set (form_pointsValue f) \<and> pointsValue (newItem uid f) = PNum n
        \<longrightarrow> 0 \<le> n)
   \<and> (pointsValue it = PNull \<longrightarrow>
        \<not> reports_success (fst (redeem st cu it)) \<and> snd (redeem st cu it) = st
        \<and> (truthy_string r \<and> userId it \<noteq> Some r \<longrightarrow>
             fst (redeem st (Some r) it) = [ShowMessage NotForPointRedemption Info]))"
proof -
  have a: "pointsValue (newItem uid f) = PNull \<longleftrightarrow> form_pointsValue f = []"
    by (simp add: newItem_def truthy_string_def parseInt10_not_null)
  have i: "(\<forall>c\<in>set ws. is_space c) \<and> (sign = [] \<or> sign = ''+'' \<or> sign = ''-'')
        \<and> ds \<noteq> [] \<and> (\<forall>c\<in>set ds. is_digit c) \<and> (rest = [] \<or> \<not> is_digit (hd rest))
        \<and> digits_value ds \<le> 2 ^ 53
       \<longrightarrow> pointsValue (newItem uid (f\<lparr>form_pointsValue := ws @ sign @ ds @ rest\<rparr>))
             = PNum ((if sign = ''-'' then - 1 else 1) * int (digits_value ds))
           \<and> (sign \<noteq> ''-'' \<longrightarrow>
                 0 \<le> (if sign = ''-'' then - 1 else 1) * int (digits_value ds))"
  proof (intro impI)
    assume h: "(\<forall>c\<in>set ws. is_space c) \<and> (sign = [] \<or> sign = ''+'' \<or> sign = ''-'')
        \<and> ds \<noteq> [] \<and> (\<forall>c\<in>set ds. is_digit c) \<and> (rest = [] \<or> \<not> is_digit (hd rest))
        \<and> digits_value ds \<le> 2 ^ 53"
    then have p: "parseInt10 (ws @ sign @ ds @ rest)
           = PNum ((if sign = ''-'' then - 1 else 1) * int (digits_value ds))"
      by (intro parseInt10_numeral) blast+
    from h have "ws @ sign @ ds @ rest \<noteq> []" by simp
    with p show "pointsValue (newItem uid (f\<lparr>form_pointsValue := ws @ sign @ ds @ rest\<rparr>))
             = PNum ((if sign = ''-'' then - 1 else 1) * int (digits_value ds))
           \<and> (sign \<noteq> ''-'' \<longrightarrow>
                 0 \<le> (if sign = ''-'' then - 1 else 1) * int (digits_value ds))"
      by (simp add: newItem_def truthy_string_def)
  qed
  have b: "CHR ''-'' \<notin> set (form_pointsValue f) \<and> pointsValue (newItem uid f) = PNum n
        \<longrightarrow> 0 \<le> n"
    using parseInt10_nonneg [of "form_pointsValue f" n]
    by (auto simp: newItem_def split: if_splits)
  have c: "pointsValue it = PNull \<longrightarrow>
        \<not> reports_success (fst (redeem st cu it)) \<and> snd (redeem st cu it) = st
        \<and> (truthy_string r \<and> userId it \<noteq> Some r \<longrightarrow>
             fst (redeem st (Some r) it) = [ShowMessage NotForPointRedemption Info])"
    by (auto simp: redeem_def handleRedeemPoints_def reports_success_def confirmRedeem_def
          split: option.splits)
  from a i b c show ?thesis by blast
qed

theorem pointsValue_absent_or_integer_witness:
  "pointsValue (newItem ''U1'' \<lparr>form_pointsValue = '''', form_images = []\<rparr>) = PNull
   \<and> list_all is_space '''' \<and> list_all is_digit ''12''
   \<and> \<not> is_digit (hd ''.5'') \<and> digits_value ''12'' \<le> 2 ^ 53
   \<and> pointsValue (newItem ''U1'' \<lparr>form_pointsValue = ''12.5'', form_images = []\<rparr>) = PNum 12
   \<and> pointsValue (newItem ''U1'' \<lparr>form_pointsValue = ''-5'', form_images = []\<rparr>) = PNum (- 5)
   \<and> CHR ''-'' \<notin> set ''100''
   \<and> pointsValue (newItem ''U1'' \<lparr>form_pointsValue = ''100'', form_images = []\<rparr>) = PNum 100
   \<and> (0::int) \<le> 100
   \<and> pointsValue (listing_L1 ''available''\<lparr>pointsValue := PNull\<rparr>) = PNull
   \<and> truthy_string ''U2''
   \<and> userId (listing_L1 ''available''\<lparr>pointsValue := PNull\<rparr>) \<noteq> Some ''U2''
   \<and> fst (redeem (ledger ''available'' ''U2'' 150) (Some ''U2'')
            (listing_L1 ''available''\<lparr>pointsValue := PNull\<rparr>))
       = [ShowMessage NotForPointRedemption Info]"
proof -
  have a: "CHR ''-'' \<notin> set ''100''" by simp
  have b: "pointsValue (newItem ''U1'' \<lparr>form_pointsValue = ''100'', form_images = []\<rparr>) = PNum 100"
    by (simp add: newItem_def truthy_string_def parseInt10_def is_space_def is_digit_def
          digits_value_def)
  have c: "pointsValue (listing_L1 ''available''\<lparr>pointsValue := PNull\<rparr>) = PNull" by simp
  have d: "truthy_string ''U2''" by (simp add: truthy_string_def)
  have e: "userId (listing_L1 ''available''\<lparr>pointsValue := PNull\<rparr>) \<noteq> Some ''U2''"
    by (simp add: listing_L1_def)
  have f: "form_pointsValue \<lparr>form_pointsValue = '''', form_images = []\<rparr> = []" by simp
  have w: "\<forall>c\<in>set ''''. is_space c" by simp
  have dg: "\<forall>c\<in>set ''12''. is_digit c" and d5: "\<forall>c\<in>set ''5''. is_digit c"
    by (simp_all add: is_digit_def)
  have r: "\<not> is_digit (hd ''.5'')" by (simp add: is_digit_def)
  have v12: "digits_value ''12'' = 12" and v5: "digits_value ''5'' = 5"
    by (simp_all add: digits_value_def)
  have bd: "digits_value ''12'' \<le> 2 ^ 53" and bd5: "digits_value ''5'' \<le> 2 ^ 53"
    by (simp_all add: v12 v5)
  from pointsValue_absent_or_integer [where f = "\<lparr>form_pointsValue = '''', form_images = []\<rparr>"
         and uid = "''U1''" and ws = "''''" and sign = "''''" and ds = "''12''"
         and rest = "''.5''"] f w dg r bd v12
  have g: "pointsValue (newItem ''U1'' \<lparr>form_pointsValue = '''', form_images = []\<rparr>) = PNull"
    and h: "pointsValue (newItem ''U1'' \<lparr>form_pointsValue = ''12.5'', form_images = []\<rparr>) = PNum 12"
    by simp_all
  from pointsValue_absent_or_integer [where f = "\<lparr>form_pointsValue = ''100'', form_images = []\<rparr>"
         and uid = "''U1''" and n = 100 and ws = "''''" and sign = "''-''" and ds = "''5''"
         and rest = "''''"
         and it = "listing_L1 ''available''\<lparr>pointsValue := PNull\<rparr>"
         and st = "ledger ''available'' ''U2'' 150" and r = "''U2''"] a b c d e w d5 bd5 v5
  have k: "pointsValue (newItem ''U1'' \<lparr>form_pointsValue = ''-5'', form_images = []\<rparr>) = PNum (- 5)"
    and l: "fst (redeem (ledger ''available'' ''U2'' 150) (Some ''U2'')
            (listing_L1 ''available''\<lparr>pointsValue := PNull\<rparr>))
       = [ShowMessage NotForPointRedemption Info]"
    by simp_all
  from a b c d e g h k l w dg r bd show ?thesis by (simp add: list_all_iff)
qed

section \<open>Swap requests\<close>

lemma requestSwap_not_owner:
  "truthy_string uid \<Longrightarrow> userId it \<noteq> Some uid \<Longrightarrow>
     requestSwap st (Some uid) it = ([ShowMessage SwapRequestSent Success], st)"
  by (auto simp: requestSwap_def handleSwapRequest_def confirmSwap_def)

text \<open>
  C5, as stated, fails. U2 and then U3 request a swap of listing L1 (owned by U1); the
  first request is not resolved, and the second is answered with the success message
  'Swap request sent successfully!', not with an error.
\<close>

theorem second_swap_request_counterexample:
  "requestSwap_listing (ledger ''available'' ''U2'' 0) (Some ''U2'') ''L1''
     = ([ShowMessage SwapRequestSent Success], ledger ''available'' ''U2'' 0)
   \<and> requestSwap_listing
        (snd (requestSwap_listing (ledger ''available'' ''U2'' 0) (Some ''U2'') ''L1''))
        (Some ''U3'') ''L1''
     = ([ShowMessage SwapRequestSent Success], ledger ''available'' ''U2'' 0)
   \<and> \<not> reports_failure [ShowMessage SwapRequestSent Success]"
  by (simp add: requestSwap_listing_def fetchItemDetails_def requestSwap_def
        handleSwapRequest_def confirmSwap_def ledger_def listing_L1_def truthy_string_def
        reports_failure_def)

text \<open>
  C5, amended. The store holds no swap requests, so no listing ever has an open one.
  Every swap request by a signed-in user other than the owner is answered with the
  success message and leaves the store as it was; a second request on the same listing,
  made before the first is resolved, is answered in the same way.
\<close>

theorem swap_requests_not_recorded:
  assumes "items st itemId = Some it"
    and "truthy_string u2" and "userId it \<noteq> Some u2"
    and "truthy_string u3" and "userId it \<noteq> Some u3"
  shows "requestSwap_listing st (Some u2) itemId = ([ShowMessage SwapRequestSent Success], st)
     \<and> requestSwap_listing (snd (requestSwap_listing st (Some u2) itemId)) (Some u3) itemId
         = ([ShowMessage SwapRequestSent Success], st)"
  using assms
  by (simp add: requestSwap_listing_found requestSwap_not_owner)

theorem swap_requests_not_recorded_witness:
  "items (ledger ''available'' ''U2'' 0) ''L1'' = Some (listing_L1 ''available'')
   \<and> truthy_string ''U2'' \<and> userId (listing_L1 ''available'') \<noteq> Some ''U2''
   \<and> truthy_string ''U3'' \<and> userId (listing_L1 ''available'') \<noteq> Some ''U3''
   \<and> requestSwap_listing (ledger ''available'' ''U2'' 0) (Some ''U2'') ''L1''
        = ([ShowMessage SwapRequestSent Success], ledger ''available'' ''U2'' 0)
   \<and> requestSwap_listing
        (snd (requestSwap_listing (ledger ''available'' ''U2'' 0) (Some ''U2'') ''L1''))
        (Some ''U3'') ''L1''
        = ([ShowMessage SwapRequestSent Success], ledger ''available'' ''U2'' 0)"
proof -
  have a: "items (ledger ''available'' ''U2'' 0) ''L1'' = Some (listing_L1 ''available'')"
    by (rule ledger_items)
  have b: "truthy_string ''U2''" and d: "truthy_string ''U3''"
    by (simp_all add: truthy_string_def)
  have c: "userId (listing_L1 ''available'') \<noteq> Some ''U2''"
    and e: "userId (listing_L1 ''available'') \<noteq> Some ''U3''"
    by (simp_all add: listing_L1_def)
  from swap_requests_not_recorded [OF a b c d e] a b c d e show ?thesis by blast
qed

section \<open>Moderation\<close>

lemma moderate_status:
  "listing_status (snd (handleModerateListing st listingId action True r)) listingId
     = Some (moderated_status action)"
  by (simp add: handleModerateListing_def Let_def listing_status_def merge_status_def
        split: option.splits)

lemma moderate_success:
  "reports_success (fst (handleModerateListing st listingId action True r))"
  by (simp add: handleModerateListing_def Let_def reports_success_def)

lemma moderate_write_failed:
  "handleModerateListing st listingId action False r = ([ShowMessage FailedToModerate Error], st)"
  by (simp add: handleModerateListing_def)

lemma edge_available_rejected: "spec_transition ''available'' ''rejected''"
  by (simp add: spec_transition_def)

lemma edge_rejected_available: "spec_transition ''rejected'' ''available''"
  by (simp add: spec_transition_def)

lemma moderated_edge:
  assumes "s = ''available'' \<or> s = ''rejected''" and "s \<noteq> moderated_status action"
  shows "spec_transition s (moderated_status action)"
proof (cases "action = ''approve''")
  case True
  then have m: "moderated_status action = ''available''" by (simp add: moderated_status_def)
  with assms have "s = ''rejected''" by metis
  with m show ?thesis by (simp only: edge_rejected_available)
next
  case False
  then have m: "moderated_status action = ''rejected''" by (simp add: moderated_status_def)
  with assms have "s = ''available''" by metis
  with m show ?thesis by (simp only: edge_available_rejected)
qed

lemma panel_moderation_is_edge:
  assumes "status it = ''available'' \<or> status it = ''rejected''"
  shows "(approve_button_shown it \<longrightarrow>
            spec_transition (status it) (moderated_status ''approve''))
       \<and> (reject_button_shown it \<longrightarrow>
            spec_transition (status it) (moderated_status ''reject''))"
proof -
  have a: "moderated_status ''approve'' = ''available''"
    and r: "moderated_status ''reject'' = ''rejected''"
    by (simp_all add: moderated_status_def)
  have "approve_button_shown it \<longrightarrow> status it \<noteq> moderated_status ''approve''"
    by (simp only: approve_button_shown_def a) simp
  moreover have "reject_button_shown it \<longrightarrow> status it \<noteq> moderated_status ''reject''"
    by (simp only: reject_button_shown_def r) simp
  ultimately show ?thesis
    using moderated_edge [OF assms] by blast
qed

lemma redeem_button_excludes_owner:
  "redeem_button_shown cu it \<Longrightarrow>
     handleRedeemPoints st cu it \<noteq> [ShowMessage CannotRedeemOwnItem Info]
     \<and> handleRedeemPoints st cu it \<noteq> [ShowMessage NotForPointRedemption Info]"
  by (auto simp: redeem_button_shown_def swap_button_shown_def isOwner_def
        handleRedeemPoints_def split: option.splits)

text \<open>
  C6, as stated, fails. Approving listing L1 while its status is 'redeemed', a terminal
  state, sets the status to 'available' and reports success; redeemed to available is
  not an edge of the state machine.
\<close>

theorem approve_redeemed_counterexample:
  "listing_status (ledger ''redeemed'' ''U2'' 0) ''L1'' = Some ''redeemed''
   \<and> listing_status (snd (handleModerateListing (ledger ''redeemed'' ''U2'' 0) ''L1''
        ''approve'' True True)) ''L1'' = Some ''available''
   \<and> fst (handleModerateListing (ledger ''redeemed'' ''U2'' 0) ''L1'' ''approve'' True True)
       = [ShowMessage (ListingModerated ''L1'' True) Success]
   \<and> \<not> spec_transition ''redeemed'' ''available''"
  by (simp add: handleModerateListing_def Let_def listing_status_def merge_status_def
        moderated_status_def ledger_def listing_L1_def spec_transition_def)

text \<open>
  C6, amended. When the write succeeds, \<open>handleModerateListing\<close> sets the status to
  'available' for the action 'approve' and to 'rejected' for any other action, whatever
  the status was (even when the listing did not exist), and reports success; there is no
  outcome for an invalid transition. When the write fails the store is as before.
  For a listing whose status is 'available' or 'rejected', the only two statuses the
  source ever writes, every change of status made this way is an edge of the state
  machine (available to rejected, rejected to available).
\<close>

theorem moderate_writes_unconditionally:
  "listing_status (snd (handleModerateListing st listingId action True r)) listingId
     = Some (moderated_status action)
   \<and> reports_success (fst (handleModerateListing st listingId action True r))
   \<and> handleModerateListing st listingId action False r
       = ([ShowMessage FailedToModerate Error], st)
   \<and> ((s = ''available'' \<or> s = ''rejected'') \<and> listing_status st listingId = Some s
        \<and> s \<noteq> moderated_status action
       \<longrightarrow> spec_transition s (moderated_status action))"
  using moderate_status [of st listingId action r] moderate_success [of st listingId action r]
    moderate_write_failed [of st listingId action r] moderated_edge [of s action]
  by blast

theorem moderate_writes_unconditionally_witness:
  "listing_status (snd (handleModerateListing (ledger ''available'' ''U2'' 0) ''L1'' ''reject''
      True True)) ''L1'' = Some ''rejected''
   \<and> (''available'' = ''available'' \<or> ''available'' = ''rejected'')
   \<and> listing_status (ledger ''available'' ''U2'' 0) ''L1'' = Some ''available''
   \<and> ''available'' \<noteq> moderated_status ''reject''
   \<and> spec_transition ''available'' (moderated_status ''reject'')"
proof -
  have a: "''available'' = ''available'' \<or> ''available'' = ''rejected''" by simp
  have b: "listing_status (ledger ''available'' ''U2'' 0) ''L1'' = Some ''available''"
    by (simp add: listing_status_def ledger_def listing_L1_def)
  have c: "''available'' \<noteq> moderated_status ''reject''" by (simp add: moderated_status_def)
  have d: "moderated_status ''reject'' = ''rejected''" by (simp add: moderated_status_def)
  from moderate_writes_unconditionally
         [where st = "ledger ''available'' ''U2'' 0" and listingId = "''L1''"
            and action = "''reject''" and r = True and s = "''available''"]
       a b c d
  show ?thesis by simp
qed

end
